theory Spec2Isabelle
  imports Main "HOL-Library.Sublist"
begin

section \<open>JavaScript values used by the client\<close>

text \<open>
  The client is JavaScript. A value that may be \<open>undefined\<close>, \<open>null\<close> or a string is a
  \<open>jsval\<close>; strings are \<open>char list\<close>. \<open>truthy\<close> is the coercion that \<open>!v\<close>, \<open>v || w\<close>
  and \<open>v ? a : b\<close> apply: \<open>undefined\<close>, \<open>null\<close> and the empty string are falsy.
\<close>

datatype jsval = Undefined | Null | Str string

fun truthy :: "jsval \<Rightarrow> bool" where
  "truthy Undefined = False"
| "truthy Null = False"
| "truthy (Str s) = (s \<noteq> [])"

section \<open>src/utils/helpers.js: ensureUrlProtocol\<close>

text \<open>
  The regular expression \<^verbatim>\<open>/^https?:\/\//\<close> is a sequence of literal characters, one
  of them optional (\<^verbatim>\<open>s?\<close>). It has no flags, so \<^verbatim>\<open>^\<close> anchors it at the start of the
  input, and \<^verbatim>\<open>url.match(re)\<close> is non-null exactly when the sequence matches there.
\<close>

datatype re_item = Lit char | Opt char

fun re_match_here :: "re_item list \<Rightarrow> string \<Rightarrow> bool" where
  "re_match_here [] s = True"
| "re_match_here (Lit c # r) [] = False"
| "re_match_here (Lit c # r) (x # xs) = (x = c \<and> re_match_here r xs)"
| "re_match_here (Opt c # r) [] = re_match_here r []"
| "re_match_here (Opt c # r) (x # xs) =
     ((x = c \<and> re_match_here r xs) \<or> re_match_here r (x # xs))"

definition protocol_re :: "re_item list" where
  "protocol_re =
     [Lit CHR ''h'', Lit CHR ''t'', Lit CHR ''t'', Lit CHR ''p'', Opt CHR ''s'',
      Lit CHR '':'', Lit CHR ''/'', Lit CHR ''/'']"

text \<open>
  \<^verbatim>\<open>
  export const ensureUrlProtocol = (url) => {
    if (!url) return url;
    if (url.match(/^https?:\/\//)) { return url; }
    return `https://${url}`;
  };
  \<close>
\<close>

fun ensureUrlProtocol :: "jsval \<Rightarrow> jsval" where
  "ensureUrlProtocol Undefined = Undefined"
| "ensureUrlProtocol Null = Null"
| "ensureUrlProtocol (Str url) =
     (if url = [] then Str url
      else if re_match_here protocol_re url then Str url
      else Str (''https://'' @ url))"


text \<open>\<open>a || b\<close>: the first operand when it is truthy, the second otherwise.\<close>

definition js_or :: "jsval \<Rightarrow> jsval \<Rightarrow> jsval" where
  "js_or a b = (if truthy a then a else b)"

text \<open>
  \<open>String.prototype.trim\<close> removes white space and line terminators from both ends.
  Of these code points, the ones a \<open>char\<close> can hold are TAB, LF, VT, FF, CR, SPACE and
  NBSP.
\<close>

definition is_js_space :: "char \<Rightarrow> bool" where
  "is_js_space c = ((of_char c :: nat) \<in> set [9, 10, 11, 12, 13, 32, 160])"

definition js_trim :: "string \<Rightarrow> string" where
  "js_trim s = rev (dropWhile is_js_space (rev (dropWhile is_js_space s)))"

text \<open>\<open>s.split(',')\<close>: the pieces between commas; the empty string gives one empty piece.\<close>

fun split_comma :: "string \<Rightarrow> string list" where
  "split_comma [] = [[]]"
| "split_comma (c # cs) =
     (if c = CHR '','' then [] # split_comma cs
      else (case split_comma cs of [] \<Rightarrow> [[c]] | w # ws \<Rightarrow> (c # w) # ws))"

section \<open>Data exchanged with the backend\<close>

type_synonym ident = string

text \<open>A reaction: \<open>reaction.user._id\<close> and \<open>reaction.emoji\<close>.\<close>

record reaction =
  r_user :: ident
  emoji :: string

text \<open>A product: \<open>_id\<close>, \<open>wishlist\<close> (the identifier of its wishlist), \<open>name\<close>, \<open>reactions\<close>.\<close>

record product =
  p_id :: ident
  p_wishlist :: ident
  p_name :: string
  p_reactions :: "reaction list"

record wishlist =
  w_id :: ident
  w_title :: string

text \<open>
  An axios error: \<open>err.response\<close> (absent when no response arrived) with its
  \<open>status\<close>, \<open>statusText\<close> and \<open>data?.message\<close>; whether \<open>err.request\<close> is set;
  \<open>err.message\<close>.
\<close>

record http_response =
  status :: nat
  statusText :: string
  data_message :: jsval

record api_error =
  response :: "http_response option"
  request :: bool
  message :: string

text \<open>\<open>error.response?.data?.message\<close>\<close>

definition response_data_message :: "api_error \<Rightarrow> jsval" where
  "response_data_message err =
     (case response err of None \<Rightarrow> Undefined | Some r \<Rightarrow> data_message r)"

section \<open>src/components/AddProductModal.jsx: the form data\<close>

record form_fields =
  name :: string
  description :: string
  price :: string
  currency :: string
  imageUrl :: string
  productUrl :: string
  category :: string
  brand :: string
  priority :: string
  tags :: string

definition initial_formData :: form_fields where
  "initial_formData =
     \<lparr>name = [], description = [], price = [], currency = ''USD'', imageUrl = [],
      productUrl = [], category = [], brand = [], priority = ''medium'', tags = []\<rparr>"

text \<open>
  \<open>formData.price ? parseFloat(formData.price) : 0\<close>: the number is kept symbolic, as the
  constant 0 or as \<open>parseFloat\<close> of the text.
\<close>

datatype price_value = Zero | ParseFloat string

text \<open>
  \<open>productData = {...formData, price: ..., tags: ..., wishlistId}\<close>: the fields of the
  form, with \<open>price\<close> and \<open>tags\<close> replaced by \<open>pd_price\<close> and \<open>pd_tags\<close>.
\<close>

record productData =
  pd_form :: form_fields
  pd_price :: price_value
  pd_tags :: "string list"
  pd_wishlistId :: ident

section \<open>src/services/api.js\<close>

text \<open>The requests the client sends through \<open>wishlistsAPI\<close> and \<open>productsAPI\<close>.\<close>

datatype api_call =
    Wishlists_joinByInvite string
  | Products_create productData
  | Products_update ident productData
  | Products_delete ident
  | Products_addReaction ident string
  | Products_removeReaction ident

text \<open>
  The browser state the response interceptor touches: local storage and
  \<open>window.location.href\<close>.
  \<^verbatim>\<open>
  api.interceptors.response.use(
    (response) => response,
    (error) => {
      if (error.response?.status === 401) {
        localStorage.removeItem('token');
        localStorage.removeItem('user');
        window.location.href = '/login';
      }
      return Promise.reject(error);
    }
  );
  \<close>
  The error handler returns the new browser state and the error the promise is rejected
  with.
\<close>

record browser =
  localStorage :: "string \<rightharpoonup> string"
  location_href :: string

definition removeItem :: "string \<Rightarrow> (string \<rightharpoonup> string) \<Rightarrow> (string \<rightharpoonup> string)" where
  "removeItem k st = st(k := None)"

definition response_status :: "api_error \<Rightarrow> nat option" where
  "response_status err = map_option status (response err)"

definition response_interceptor :: "api_error \<Rightarrow> browser \<Rightarrow> browser \<times> api_error" where
  "response_interceptor err b =
     (if response_status err = Some 401
      then (b\<lparr>localStorage := removeItem ''user'' (removeItem ''token'' (localStorage b)),
              location_href := ''/login''\<rparr>, err)
      else (b, err))"

section \<open>src/services/socket.js\<close>

text \<open>The payloads of the product events and of the \<open>reaction-added\<close> event.\<close>

record product_event =
  ev_wishlistId :: ident
  ev_product :: product

record deleted_event =
  del_wishlistId :: ident
  del_productId :: ident

datatype reaction_event =
    ReactionRemove ident ident ident
  | ReactionAdd ident ident reaction

datatype socket_msg =
    Msg_product_added product_event
  | Msg_product_updated product_event
  | Msg_product_deleted deleted_event
  | Msg_reaction_added reaction_event

text \<open>
  The singleton \<open>SocketService\<close>: whether \<open>this.socket\<close> is set, \<open>this.isConnected\<close>, and
  the messages handed to \<open>socket.emit\<close>, oldest first. Every emitter has the guard
  \<^verbatim>\<open>if (this.socket && this.isConnected)\<close>.
\<close>

record socket_service =
  socket :: bool
  isConnected :: bool
  emitted :: "socket_msg list"

definition emit :: "socket_msg \<Rightarrow> socket_service \<Rightarrow> socket_service" where
  "emit m s = (if socket s \<and> isConnected s then s\<lparr>emitted := emitted s @ [m]\<rparr> else s)"

definition emitProductAdded :: "product_event \<Rightarrow> socket_service \<Rightarrow> socket_service" where
  "emitProductAdded data = emit (Msg_product_added data)"

definition emitProductUpdated :: "product_event \<Rightarrow> socket_service \<Rightarrow> socket_service" where
  "emitProductUpdated data = emit (Msg_product_updated data)"

definition emitProductDeleted :: "deleted_event \<Rightarrow> socket_service \<Rightarrow> socket_service" where
  "emitProductDeleted data = emit (Msg_product_deleted data)"


text \<open>What the client has done to the outside: the requests sent and the socket service.\<close>

record env =
  api_calls :: "api_call list"
  svc :: socket_service

definition call_api :: "api_call \<Rightarrow> env \<Rightarrow> env" where
  "call_api c e = e\<lparr>api_calls := api_calls e @ [c]\<rparr>"

section \<open>The wishlist-detail page (WishlistDetail)\<close>

text \<open>
  The state of the page that the handlers below change. \<open>wid\<close> is the \<open>id\<close> route
  parameter of the page, a string.
\<close>

record page =
  products :: "product list"
  showAddProduct :: bool

text \<open>
  \<^verbatim>\<open>
  const handleProductAdded = (data) => {
    if (data.wishlistId === id) { setProducts(prev => [data.product, ...prev]); }
  };
  const handleProductUpdated = (data) => {
    if (data.wishlistId === id) {
      setProducts(prev => prev.map(p => p._id === data.product._id ? data.product : p));
    }
  };
  const handleProductDeleted = (data) => {
    if (data.wishlistId === id) {
      setProducts(prev => prev.filter(p => p._id !== data.productId));
    }
  };
  \<close>
\<close>

definition handleProductAdded :: "ident \<Rightarrow> product_event \<Rightarrow> page \<Rightarrow> page" where
  "handleProductAdded wid data pg =
     (if ev_wishlistId data = wid
      then pg\<lparr>products := ev_product data # products pg\<rparr>
      else pg)"

definition handleProductUpdated :: "ident \<Rightarrow> product_event \<Rightarrow> page \<Rightarrow> page" where
  "handleProductUpdated wid data pg =
     (if ev_wishlistId data = wid
      then pg\<lparr>products :=
             map (\<lambda>p. if p_id p = p_id (ev_product data) then ev_product data else p)
               (products pg)\<rparr>
      else pg)"

definition handleProductDeleted :: "ident \<Rightarrow> deleted_event \<Rightarrow> page \<Rightarrow> page" where
  "handleProductDeleted wid data pg =
     (if del_wishlistId data = wid
      then pg\<lparr>products := filter (\<lambda>p. p_id p \<noteq> del_productId data) (products pg)\<rparr>
      else pg)"

text \<open>
  The effect registers one handler per event name (\<open>socketService.onProductAdded\<close>,
  \<open>onProductUpdated\<close>, \<open>onProductDeleted\<close>, after \<open>socketService.connect()\<close> has set
  \<open>this.socket\<close>), so an incoming message runs the handler of its name. The page has no
  handler for \<open>reaction-added\<close>.
\<close>

fun on_socket_msg :: "ident \<Rightarrow> socket_msg \<Rightarrow> page \<Rightarrow> page" where
  "on_socket_msg wid (Msg_product_added data) pg = handleProductAdded wid data pg"
| "on_socket_msg wid (Msg_product_updated data) pg = handleProductUpdated wid data pg"
| "on_socket_msg wid (Msg_product_deleted data) pg = handleProductDeleted wid data pg"
| "on_socket_msg wid (Msg_reaction_added data) pg = pg"

text \<open>
  \<^verbatim>\<open>
  const handleAddProduct = async (productData) => {
    try {
      const response = await productsAPI.create(productData);
      setProducts(prev => [response.data, ...prev]);
      setShowAddProduct(false);
      socketService.emitProductAdded({ wishlistId: id, product: response.data });
    } catch (error) {
      console.error('Error adding product:', error);
      throw new Error(error.response?.data?.message || 'Failed to add product');
    }
  };
  \<close>
  \<open>answer\<close> is what the backend does with the request: it rejects with an error or
  resolves with the created product. The second component of the result is the message
  of the error the handler throws, if it throws.
\<close>

definition handleAddProduct ::
  "ident \<Rightarrow> (api_error + product) \<Rightarrow> productData \<Rightarrow> env \<times> page \<Rightarrow> (env \<times> page) \<times> jsval option"
where
  "handleAddProduct wid answer productData w =
     (let e = call_api (Products_create productData) (fst w); pg = snd w in
      case answer of
        Inr data \<Rightarrow>
          ((e\<lparr>svc := emitProductAdded \<lparr>ev_wishlistId = wid, ev_product = data\<rparr> (svc e)\<rparr>,
            pg\<lparr>products := data # products pg, showAddProduct := False\<rparr>), None)
      | Inl err \<Rightarrow>
          ((e, pg), Some (js_or (response_data_message err) (Str ''Failed to add product''))))"

text \<open>
  \<^verbatim>\<open>
  const handleDeleteProduct = (productId) => {
    setProducts(prev => prev.filter(p => p._id !== productId));
  };
  \<close>
\<close>

definition handleDeleteProduct :: "ident \<Rightarrow> page \<Rightarrow> page" where
  "handleDeleteProduct productId pg =
     pg\<lparr>products := filter (\<lambda>p. p_id p \<noteq> productId) (products pg)\<rparr>"

section \<open>The product card (ProductCard)\<close>

text \<open>
  \<^verbatim>\<open>
  const handleDelete = async () => {
    if (window.confirm('Are you sure you want to delete this product?')) {
      try {
        await productsAPI.delete(product._id);
        onDelete(product._id);
        socketService.emitProductDeleted({ wishlistId: product.wishlist, productId: product._id });
      } catch (error) { console.error('Error deleting product:', error); }
    }
  };
  \<close>
  \<open>confirmed\<close> is the answer of \<open>window.confirm\<close>; \<open>onDelete\<close> is the page's
  \<open>handleDeleteProduct\<close>.
\<close>

definition handleDelete ::
  "bool \<Rightarrow> (api_error + unit) \<Rightarrow> product \<Rightarrow> env \<times> page \<Rightarrow> env \<times> page"
where
  "handleDelete confirmed answer product w =
     (if confirmed then
        (let e = call_api (Products_delete (p_id product)) (fst w); pg = snd w in
         case answer of
           Inr u \<Rightarrow>
             (e\<lparr>svc := emitProductDeleted
                    \<lparr>del_wishlistId = p_wishlist product, del_productId = p_id product\<rparr> (svc e)\<rparr>,
              handleDeleteProduct (p_id product) pg)
         | Inl err \<Rightarrow> (e, pg))
      else w)"

text \<open>
  The Edit entry of the card's menu: \<^verbatim>\<open>onClick={() => {/* TODO: Edit product */}}\<close>.
  No component calls \<open>productsAPI.update\<close> or \<open>socketService.emitProductUpdated\<close>.
\<close>

definition editOnClick :: "env \<times> page \<Rightarrow> env \<times> page" where
  "editOnClick w = w"

text \<open>
  What the user can do to a product from this client, and what the client then does.
\<close>

datatype product_action =
    CreateProduct productData "api_error + product"
  | EditProduct product
  | DeleteProduct product bool "api_error + unit"

fun perform :: "ident \<Rightarrow> product_action \<Rightarrow> env \<times> page \<Rightarrow> env \<times> page" where
  "perform wid (CreateProduct productData answer) w = fst (handleAddProduct wid answer productData w)"
| "perform wid (EditProduct product) w = editOnClick w"
| "perform wid (DeleteProduct product confirmed answer) w = handleDelete confirmed answer product w"







section \<open>src/components/JoinWishlistModal.jsx\<close>

text \<open>
  \<^verbatim>\<open>
  const handleSubmit = async (e) => {
    e.preventDefault();
    if (!inviteCode.trim()) return;
    setIsLoading(true);
    setError('');
    try {
      const response = await wishlistsAPI.joinByInvite(inviteCode.trim());
      onSuccess(response.data.wishlist);
      setInviteCode('');
      onClose();
    } catch (error) {
      setError(error.response?.data?.message || 'Failed to join wishlist');
    } finally {
      setIsLoading(false);
    }
  };
  \<close>
  The modal's state, and the calls it has made to its \<open>onSuccess\<close> and \<open>onClose\<close> props.
\<close>

record join_modal =
  inviteCode :: string
  join_isLoading :: bool
  join_error :: jsval

record join_props =
  onSuccess_calls :: "wishlist list"
  onClose_calls :: nat

fun join_handleSubmit ::
  "(api_error + wishlist) \<Rightarrow> join_modal \<times> env \<times> join_props \<Rightarrow> join_modal \<times> env \<times> join_props"
where
  "join_handleSubmit answer (m, e, props) =
     (if js_trim (inviteCode m) = [] then (m, e, props)
      else
        (let m1 = m\<lparr>join_isLoading := True, join_error := Str []\<rparr>;
             e1 = call_api (Wishlists_joinByInvite (js_trim (inviteCode m))) e
         in case answer of
              Inr w \<Rightarrow>
                (m1\<lparr>inviteCode := [], join_isLoading := False\<rparr>, e1,
                 props\<lparr>onSuccess_calls := onSuccess_calls props @ [w],
                       onClose_calls := Suc (onClose_calls props)\<rparr>)
            | Inl err \<Rightarrow>
                (m1\<lparr>join_error := js_or (response_data_message err) (Str ''Failed to join wishlist''),
                    join_isLoading := False\<rparr>, e1, props)))"

section \<open>src/components/AddProductModal.jsx\<close>

text \<open>
  \<^verbatim>\<open>
  const handleSubmit = async (e) => {
    e.preventDefault();
    setIsLoading(true);
    setError('');
    try {
      const productData = {
        ...formData,
        price: formData.price ? parseFloat(formData.price) : 0,
        tags: formData.tags.split(',').map(tag => tag.trim()).filter(tag => tag),
        wishlistId,
      };
      await onSubmit(productData);
      setFormData({ name: '', ... });
    } catch (error) { setError(error.message); }
    finally { setIsLoading(false); }
  };
  \<close>
  \<open>onSubmit\<close> is a prop: it acts on the surroundings \<open>'w\<close> and may throw an error, whose
  message is then the second component of its result.
\<close>

record add_modal =
  formData :: form_fields
  add_isLoading :: bool
  add_error :: jsval

definition make_productData :: "ident \<Rightarrow> form_fields \<Rightarrow> productData" where
  "make_productData wishlistId fd =
     \<lparr>pd_form = fd,
      pd_price = (if price fd \<noteq> [] then ParseFloat (price fd) else Zero),
      pd_tags = filter (\<lambda>tag. tag \<noteq> []) (map js_trim (split_comma (tags fd))),
      pd_wishlistId = wishlistId\<rparr>"

fun add_handleSubmit ::
  "ident \<Rightarrow> (productData \<Rightarrow> 'w \<Rightarrow> 'w \<times> jsval option) \<Rightarrow> add_modal \<times> 'w \<Rightarrow> add_modal \<times> 'w"
where
  "add_handleSubmit wishlistId onSubmit (m, w) =
     (let m1 = m\<lparr>add_isLoading := True, add_error := Str []\<rparr> in
      case onSubmit (make_productData wishlistId (formData m)) w of
        (w', None) \<Rightarrow> (m1\<lparr>formData := initial_formData, add_isLoading := False\<rparr>, w')
      | (w', Some msg) \<Rightarrow> (m1\<lparr>add_error := msg, add_isLoading := False\<rparr>, w'))"

text \<open>
  The submit button: \<^verbatim>\<open>type="submit" disabled={isLoading || !formData.name.trim()}\<close>,
  inside \<^verbatim>\<open><form onSubmit={handleSubmit}>\<close>. The browser sends no submit event through a
  disabled submit button, neither on a click nor on the Enter key in a field of its form.
\<close>

definition submit_disabled :: "add_modal \<Rightarrow> bool" where
  "submit_disabled m = (add_isLoading m \<or> \<not> truthy (Str (js_trim (name (formData m)))))"

text \<open>
  The form has no \<open>noValidate\<close>, so the browser validates its fields before it sends the
  submit event. The name field is \<open>required\<close>: its value, which \<open>formData.name\<close> mirrors,
  must not be empty. The price field (\<^verbatim>\<open>type="number" min="0" step="0.01"\<close>) and the
  productUrl field (\<^verbatim>\<open>type="url"\<close>) are checked by the browser's own parsing of numbers
  and URLs; \<open>typed_fields_valid\<close> is its verdict on these two fields.
\<close>

definition passes_validation :: "bool \<Rightarrow> form_fields \<Rightarrow> bool" where
  "passes_validation typed_fields_valid fd = (name fd \<noteq> [] \<and> typed_fields_valid)"

definition submit ::
  "ident \<Rightarrow> (productData \<Rightarrow> 'w \<Rightarrow> 'w \<times> jsval option) \<Rightarrow> bool \<Rightarrow> add_modal \<times> 'w \<Rightarrow> add_modal \<times> 'w"
where
  "submit wishlistId onSubmit typed_fields_valid mw =
     (if submit_disabled (fst mw) then mw
      else if \<not> passes_validation typed_fields_valid (formData (fst mw)) then mw
      else add_handleSubmit wishlistId onSubmit mw)"

section \<open>src/components/ImageUpload.jsx\<close>

text \<open>
  The \<open>catch\<close> block of \<open>onDrop\<close>:
  \<^verbatim>\<open>
  let errorMessage = 'Upload failed';
  if (err.response) {
    errorMessage = err.response.data?.message || err.response.statusText || errorMessage;
    if (err.response.status === 503) {
      errorMessage = 'Image upload service not configured. Please check server configuration.';
    }
  } else if (err.request) {
    errorMessage = 'Unable to connect to server. Please check your connection.';
  } else {
    errorMessage = err.message || errorMessage;
  }
  setError(errorMessage);
  \<close>
\<close>

definition not_configured_message :: string where
  "not_configured_message =
     ''Image upload service not configured. Please check server configuration.''"

definition unable_to_connect_message :: string where
  "unable_to_connect_message = ''Unable to connect to server. Please check your connection.''"

definition upload_error_message :: "api_error \<Rightarrow> jsval" where
  "upload_error_message err =
     (let errorMessage = Str ''Upload failed'' in
      case response err of
        Some r \<Rightarrow>
          (let errorMessage1 = js_or (js_or (data_message r) (Str (statusText r))) errorMessage
           in if status r = 503 then Str not_configured_message else errorMessage1)
      | None \<Rightarrow>
          (if request err then Str unable_to_connect_message
           else js_or (Str (message err)) errorMessage))"

text \<open>
  The upload of one accepted file: the state is reset, the request is awaited, and the
  \<open>finally\<close> block clears \<open>uploading\<close>. \<open>answer\<close> is the outcome of the upload request.
\<close>

record upload_state =
  uploading :: bool
  uploadProgress :: nat
  upload_error :: jsval
  success :: bool

definition onDrop :: "(api_error + unit) \<Rightarrow> upload_state \<Rightarrow> upload_state" where
  "onDrop answer st =
     (let st1 = st\<lparr>upload_error := Str [], success := False, uploading := True,
                   uploadProgress := 0\<rparr>
      in case answer of
           Inr u \<Rightarrow> st1\<lparr>success := True, uploadProgress := 100, uploading := False\<rparr>
         | Inl err \<Rightarrow> st1\<lparr>upload_error := upload_error_message err, uploading := False\<rparr>)"

section \<open>Sample inputs\<close>

text \<open>Concrete values at which the theorems below are instantiated.\<close>

definition sample_product :: product where
  "sample_product =
     \<lparr>p_id = ''p1'', p_wishlist = ''w1'', p_name = ''Lamp'',
      p_reactions = [\<lparr>r_user = ''u2'', emoji = ''fire''\<rparr>, \<lparr>r_user = ''u1'', emoji = ''heart''\<rparr>]\<rparr>"

definition sample_product2 :: product where
  "sample_product2 = \<lparr>p_id = ''p2'', p_wishlist = ''w1'', p_name = ''Desk'', p_reactions = []\<rparr>"

definition sample_page :: page where
  "sample_page = \<lparr>products = [sample_product, sample_product2], showAddProduct = True\<rparr>"

definition sample_env :: "bool \<Rightarrow> env" where
  "sample_env connected =
     \<lparr>api_calls = [], svc = \<lparr>socket = True, isConnected = connected, emitted = []\<rparr>\<rparr>"

definition sample_form :: form_fields where
  "sample_form = initial_formData\<lparr>name := ''Lamp'', tags := ''home, light''\<rparr>"

definition sample_productData :: productData where
  "sample_productData = make_productData ''w1'' sample_form"

definition sample_response :: "nat \<Rightarrow> string \<Rightarrow> jsval \<Rightarrow> http_response" where
  "sample_response st txt msg = \<lparr>status = st, statusText = txt, data_message = msg\<rparr>"

definition sample_error :: "nat \<Rightarrow> string \<Rightarrow> jsval \<Rightarrow> api_error" where
  "sample_error st txt msg =
     \<lparr>response = Some (sample_response st txt msg), request = True,
      message = ''Request failed''\<rparr>"

definition sample_browser :: browser where
  "sample_browser =
     \<lparr>localStorage = [''token'' \<mapsto> ''abc'', ''user'' \<mapsto> ''{}'', ''theme'' \<mapsto> ''dark''],
      location_href = ''/dashboard''\<rparr>"

definition sample_join_modal :: join_modal where
  "sample_join_modal = \<lparr>inviteCode = '' BAD123'', join_isLoading = False, join_error = Str []\<rparr>"

definition sample_join_props :: join_props where
  "sample_join_props = \<lparr>onSuccess_calls = [], onClose_calls = 0\<rparr>"

definition sample_add_modal :: "string \<Rightarrow> add_modal" where
  "sample_add_modal nm =
     \<lparr>formData = initial_formData\<lparr>name := nm\<rparr>, add_isLoading = False, add_error = Str []\<rparr>"

definition sample_upload_state :: upload_state where
  "sample_upload_state =
     \<lparr>uploading = False, uploadProgress = 0, upload_error = Str [], success = False\<rparr>"


section \<open>Properties of ensureUrlProtocol\<close>

lemma protocol_re_prefix:
  "re_match_here protocol_re s = (prefix ''http://'' s \<or> prefix ''https://'' s)"
proof -
  have m: "\<And>c r s. re_match_here (Lit c # r) s = (\<exists>t. s = c # t \<and> re_match_here r t)"
    subgoal for c r s by (cases s) auto
    done
  have p: "\<And>c p s. prefix (c # p) s = (\<exists>t. s = c # t \<and> prefix p t)"
    subgoal for c p s by (cases s) auto
    done
  have o: "\<And>c r s. re_match_here (Opt c # r) s =
             ((\<exists>t. s = c # t \<and> re_match_here r t) \<or> re_match_here r s)"
    subgoal for c r s by (cases s) auto
    done
  show ?thesis
    unfolding protocol_re_def by (auto simp: m o p)
qed

lemma protocol_re_https: "re_match_here protocol_re (''https://'' @ s)"
  by (simp add: protocol_re_prefix)

text \<open>
  C9. For every non-empty string, ensureUrlProtocol returns the string itself when it
  begins with \<open>http://\<close> or \<open>https://\<close>, and the string prefixed with \<open>https://\<close>
  otherwise.
\<close>

theorem ensureUrlProtocol_spec:
  assumes "url \<noteq> []"
  shows "ensureUrlProtocol (Str url) =
           (if prefix ''http://'' url \<or> prefix ''https://'' url then Str url
            else Str (''https://'' @ url))"
  using assms by (simp add: protocol_re_prefix)

theorem ensureUrlProtocol_spec_witness:
  "ensureUrlProtocol (Str ''example.com'') = Str ''https://example.com''
   \<and> ensureUrlProtocol (Str ''http://x.com'') = Str ''http://x.com''"
  using ensureUrlProtocol_spec [of "''example.com''"]
        ensureUrlProtocol_spec [of "''http://x.com''"]
  by simp

text \<open>
  C10. ensureUrlProtocol is idempotent on every argument: \<open>undefined\<close>, \<open>null\<close> and
  the empty string pass through, and every other result begins with a protocol, so a
  second application returns it as it is.
\<close>

theorem ensureUrlProtocol_idempotent:
  "ensureUrlProtocol (ensureUrlProtocol v) = ensureUrlProtocol v"
proof (cases v)
  case (Str url)
  then show ?thesis using protocol_re_https [of url] by simp
qed simp_all

theorem ensureUrlProtocol_idempotent_witness:
  "ensureUrlProtocol (ensureUrlProtocol (Str ''example.com'')) = Str ''https://example.com''
   \<and> ensureUrlProtocol (ensureUrlProtocol (Str [])) = Str []"
  using ensureUrlProtocol_idempotent [of "Str ''example.com''"]
        ensureUrlProtocol_idempotent [of "Str []"]
  by (simp add: protocol_re_def)

section \<open>Socket events on the wishlist-detail page\<close>

text \<open>
  C1. An incoming product-added, product-updated or product-deleted message whose
  wishlistId differs from the page's identifier leaves the page as it is. When it matches:
  product-added puts the carried product in front of the list; product-updated keeps the
  length and replaces, position by position, exactly the elements whose _id is the carried
  product's _id; product-deleted leaves no element with the carried productId, and what is
  left is the old list without exactly those elements, in the old order.
\<close>

theorem socket_events_applied:
  "(ev_wishlistId a \<noteq> wid \<longrightarrow>
      on_socket_msg wid (Msg_product_added a) pg = pg
      \<and> on_socket_msg wid (Msg_product_updated a) pg = pg)
   \<and> (del_wishlistId d \<noteq> wid \<longrightarrow> on_socket_msg wid (Msg_product_deleted d) pg = pg)
   \<and> (ev_wishlistId a = wid \<longrightarrow>
        products (on_socket_msg wid (Msg_product_added a) pg) = ev_product a # products pg)
   \<and> (ev_wishlistId a = wid \<longrightarrow>
        length (products (on_socket_msg wid (Msg_product_updated a) pg)) = length (products pg)
        \<and> (\<forall>i < length (products pg).
              products (on_socket_msg wid (Msg_product_updated a) pg) ! i =
                (if p_id (products pg ! i) = p_id (ev_product a) then ev_product a
                 else products pg ! i)))
   \<and> (del_wishlistId d = wid \<longrightarrow>
        (\<forall>p \<in> set (products (on_socket_msg wid (Msg_product_deleted d) pg)).
            p_id p \<noteq> del_productId d)
        \<and> subseq (products (on_socket_msg wid (Msg_product_deleted d) pg)) (products pg)
        \<and> length (products (on_socket_msg wid (Msg_product_deleted d) pg))
            + length (filter (\<lambda>p. p_id p = del_productId d) (products pg))
            = length (products pg))
   \<and> showAddProduct (on_socket_msg wid m pg) = showAddProduct pg"
proof -
  have len: "length (filter (\<lambda>p. p_id p \<noteq> k) ps) + length (filter (\<lambda>p. p_id p = k) ps)
               = length ps" for k and ps :: "product list"
    using sum_length_filter_compl [of "\<lambda>p. p_id p = k" ps] by simp
  have flag: "showAddProduct (on_socket_msg wid m pg) = showAddProduct pg"
    by (cases m)
       (simp_all add: handleProductAdded_def handleProductUpdated_def handleProductDeleted_def)
  show ?thesis
    using flag
    by (simp add: handleProductAdded_def handleProductUpdated_def handleProductDeleted_def len)
qed

theorem socket_events_applied_witness:
  "on_socket_msg ''w1''
      (Msg_product_added \<lparr>ev_wishlistId = ''w2'', ev_product = sample_product2\<rparr>) sample_page
     = sample_page
   \<and> products (on_socket_msg ''w1''
        (Msg_product_added \<lparr>ev_wishlistId = ''w1'', ev_product = sample_product2\<rparr>) sample_page)
     = [sample_product2, sample_product, sample_product2]
   \<and> products (on_socket_msg ''w1''
        (Msg_product_updated
           \<lparr>ev_wishlistId = ''w1'', ev_product = sample_product2\<lparr>p_name := ''Oak desk''\<rparr>\<rparr>)
        sample_page) ! 1
     = sample_product2\<lparr>p_name := ''Oak desk''\<rparr>
   \<and> length (products (on_socket_msg ''w1''
        (Msg_product_deleted \<lparr>del_wishlistId = ''w1'', del_productId = ''p1''\<rparr>) sample_page))
     = 1"
  using socket_events_applied
          [where a = "\<lparr>ev_wishlistId = ''w2'', ev_product = sample_product2\<rparr>"
             and wid = "''w1''" and pg = sample_page
             and d = "\<lparr>del_wishlistId = ''w1'', del_productId = ''p1''\<rparr>"]
        socket_events_applied
          [where a = "\<lparr>ev_wishlistId = ''w1'', ev_product = sample_product2\<rparr>"
             and wid = "''w1''" and pg = sample_page
             and d = "\<lparr>del_wishlistId = ''w1'', del_productId = ''p1''\<rparr>"]
        socket_events_applied
          [where a = "\<lparr>ev_wishlistId = ''w1'',
                         ev_product = sample_product2\<lparr>p_name := ''Oak desk''\<rparr>\<rparr>"
             and wid = "''w1''" and pg = sample_page
             and d = "\<lparr>del_wishlistId = ''w1'', del_productId = ''p1''\<rparr>"]
  by (simp add: sample_page_def sample_product_def sample_product2_def)

section \<open>Product mutations started by this client\<close>

text \<open>
  C2, as stated, fails. With the socket connected, the Edit entry of the product card sends
  no request and emits nothing, so no update is performed through either channel; and with
  the socket not connected, a product is created through the REST call and nothing is
  emitted.
\<close>

theorem product_mutations_counterexample:
  "api_calls (fst (perform ''w1'' (EditProduct sample_product) (sample_env True, sample_page)))
     = []
   \<and> emitted (svc (fst (perform ''w1'' (EditProduct sample_product)
        (sample_env True, sample_page)))) = []
   \<and> api_calls (fst (perform ''w1'' (CreateProduct sample_productData (Inr sample_product))
        (sample_env False, sample_page))) = [Products_create sample_productData]
   \<and> emitted (svc (fst (perform ''w1'' (CreateProduct sample_productData (Inr sample_product))
        (sample_env False, sample_page)))) = []"
  by (simp add: editOnClick_def handleAddProduct_def sample_env_def call_api_def
        emitProductAdded_def emit_def)

text \<open>
  C2, amended. For the two mutations the client starts, create (handleAddProduct) and
  delete (handleDelete, once the user has confirmed): when the socket exists and is
  connected, a successful REST call is followed by exactly one emitted event of the
  corresponding kind, product-added carrying the page's wishlist identifier and the created
  product, product-deleted carrying the product's wishlist and identifier. A rejected REST
  call emits nothing, a delete that is not confirmed does nothing, and nothing is emitted
  while the socket is not connected.
\<close>

theorem product_mutations_emit:
  "(socket (svc (fst w)) \<and> isConnected (svc (fst w)) \<longrightarrow>
      api_calls (fst (perform wid (CreateProduct pd (Inr data)) w)) =
        api_calls (fst w) @ [Products_create pd]
      \<and> emitted (svc (fst (perform wid (CreateProduct pd (Inr data)) w))) =
          emitted (svc (fst w)) @ [Msg_product_added \<lparr>ev_wishlistId = wid, ev_product = data\<rparr>]
      \<and> api_calls (fst (perform wid (DeleteProduct p True (Inr ())) w)) =
          api_calls (fst w) @ [Products_delete (p_id p)]
      \<and> emitted (svc (fst (perform wid (DeleteProduct p True (Inr ())) w))) =
          emitted (svc (fst w))
            @ [Msg_product_deleted \<lparr>del_wishlistId = p_wishlist p, del_productId = p_id p\<rparr>])
   \<and> emitted (svc (fst (perform wid (CreateProduct pd (Inl err)) w))) = emitted (svc (fst w))
   \<and> emitted (svc (fst (perform wid (DeleteProduct p c (Inl err)) w))) = emitted (svc (fst w))
   \<and> perform wid (DeleteProduct p False ans) w = w
   \<and> (\<not> (socket (svc (fst w)) \<and> isConnected (svc (fst w))) \<longrightarrow>
        emitted (svc (fst (perform wid a w))) = emitted (svc (fst w)))"
proof -
  have off: "emitted (svc (fst (perform wid a w))) = emitted (svc (fst w))"
    if "\<not> (socket (svc (fst w)) \<and> isConnected (svc (fst w)))"
    using that
    by (cases a)
       (auto simp: handleAddProduct_def handleDelete_def editOnClick_def call_api_def
          emitProductAdded_def emitProductDeleted_def emit_def Let_def split: sum.splits)
  show ?thesis
    using off
    by (simp add: handleAddProduct_def handleDelete_def call_api_def
          emitProductAdded_def emitProductDeleted_def emit_def Let_def)
qed

theorem product_mutations_emit_witness:
  "emitted (svc (fst (perform ''w1'' (CreateProduct sample_productData (Inr sample_product))
      (sample_env True, sample_page)))) =
     [Msg_product_added \<lparr>ev_wishlistId = ''w1'', ev_product = sample_product\<rparr>]
   \<and> emitted (svc (fst (perform ''w1'' (DeleteProduct sample_product True (Inr ()))
      (sample_env True, sample_page)))) =
     [Msg_product_deleted \<lparr>del_wishlistId = ''w1'', del_productId = ''p1''\<rparr>]
   \<and> emitted (svc (fst (perform ''w1'' (DeleteProduct sample_product True (Inr ()))
      (sample_env False, sample_page)))) = []"
  using product_mutations_emit
          [where w = "(sample_env True, sample_page)" and wid = "''w1''"
             and pd = sample_productData and data = sample_product and p = sample_product
             and a = "DeleteProduct sample_product True (Inr ())"]
        product_mutations_emit
          [where w = "(sample_env False, sample_page)" and wid = "''w1''"
             and pd = sample_productData and data = sample_product and p = sample_product
             and a = "DeleteProduct sample_product True (Inr ())"]
  by (simp add: sample_env_def sample_product_def)

section \<open>The response interceptor\<close>

text \<open>
  C3. When the error carries a response with status 401, the interceptor leaves local
  storage without a \<open>token\<close> and without a \<open>user\<close> entry, keeps every other entry, and sets
  the location to the login view. When the error has no response or another status, the
  browser state is unchanged. In every case the promise is rejected with the same error.
\<close>

theorem interceptor_clears_credentials_on_401:
  "(response err = Some r \<and> status r = 401 \<longrightarrow>
      localStorage (fst (response_interceptor err b)) ''token'' = None
      \<and> localStorage (fst (response_interceptor err b)) ''user'' = None
      \<and> (\<forall>k. k \<noteq> ''token'' \<and> k \<noteq> ''user'' \<longrightarrow>
            localStorage (fst (response_interceptor err b)) k = localStorage b k)
      \<and> location_href (fst (response_interceptor err b)) = ''/login'')
   \<and> ((response err = None \<or> (response err = Some r \<and> status r \<noteq> 401)) \<longrightarrow>
        fst (response_interceptor err b) = b)
   \<and> snd (response_interceptor err b) = err"
  by (auto simp: response_interceptor_def response_status_def removeItem_def)

theorem interceptor_clears_credentials_on_401_witness:
  "localStorage (fst (response_interceptor (sample_error 401 ''Unauthorized'' Undefined)
      sample_browser)) ''token'' = None
   \<and> localStorage (fst (response_interceptor (sample_error 401 ''Unauthorized'' Undefined)
      sample_browser)) ''user'' = None
   \<and> localStorage (fst (response_interceptor (sample_error 401 ''Unauthorized'' Undefined)
      sample_browser)) ''theme'' = Some ''dark''
   \<and> location_href (fst (response_interceptor (sample_error 401 ''Unauthorized'' Undefined)
      sample_browser)) = ''/login''
   \<and> fst (response_interceptor (sample_error 500 ''Internal Server Error'' Undefined)
      sample_browser) = sample_browser"
  using interceptor_clears_credentials_on_401
          [where err = "sample_error 401 ''Unauthorized'' Undefined"
             and r = "sample_response 401 ''Unauthorized'' Undefined" and b = sample_browser]
        interceptor_clears_credentials_on_401
          [where err = "sample_error 500 ''Internal Server Error'' Undefined"
             and r = "sample_response 500 ''Internal Server Error'' Undefined"
             and b = sample_browser]
  by (simp add: sample_error_def sample_response_def sample_browser_def)

section \<open>Joining a wishlist\<close>

text \<open>
  C4. When the joinByInvite request is rejected, the modal's error becomes the message of
  the response when there is one that is truthy and \<open>Failed to join wishlist\<close> otherwise,
  the invite code stays as entered, loading ends, and neither onSuccess nor onClose is
  called. For every outcome, handleSubmit calls onClose and onSuccess exactly once when the
  request was sent and resolved, and not at all otherwise.
\<close>

theorem join_failure_keeps_modal_open:
  "(js_trim (inviteCode m) \<noteq> [] \<longrightarrow>
      join_error (fst (join_handleSubmit (Inl err) (m, e, props))) =
        (if truthy (response_data_message err) then response_data_message err
         else Str ''Failed to join wishlist'')
      \<and> join_isLoading (fst (join_handleSubmit (Inl err) (m, e, props))) = False
      \<and> api_calls (fst (snd (join_handleSubmit (Inl err) (m, e, props)))) =
          api_calls e @ [Wishlists_joinByInvite (js_trim (inviteCode m))])
   \<and> inviteCode (fst (join_handleSubmit (Inl err) (m, e, props))) = inviteCode m
   \<and> snd (snd (join_handleSubmit (Inl err) (m, e, props))) = props
   \<and> onClose_calls (snd (snd (join_handleSubmit answer (m, e, props)))) =
        (case answer of
           Inl x \<Rightarrow> onClose_calls props
         | Inr wl \<Rightarrow> if js_trim (inviteCode m) \<noteq> [] then Suc (onClose_calls props)
                     else onClose_calls props)
   \<and> onSuccess_calls (snd (snd (join_handleSubmit answer (m, e, props)))) =
        (case answer of
           Inl x \<Rightarrow> onSuccess_calls props
         | Inr wl \<Rightarrow> if js_trim (inviteCode m) \<noteq> [] then onSuccess_calls props @ [wl]
                     else onSuccess_calls props)"
  by (cases answer) (simp_all add: js_or_def call_api_def Let_def)

theorem join_failure_keeps_modal_open_witness:
  "join_error (fst (join_handleSubmit
      (Inl (sample_error 404 ''Not Found'' (Str ''Invalid invite code'')))
      (sample_join_modal, sample_env True, sample_join_props))) = Str ''Invalid invite code''
   \<and> join_error (fst (join_handleSubmit (Inl (sample_error 404 ''Not Found'' Undefined))
      (sample_join_modal, sample_env True, sample_join_props))) = Str ''Failed to join wishlist''
   \<and> inviteCode (fst (join_handleSubmit
      (Inl (sample_error 404 ''Not Found'' (Str ''Invalid invite code'')))
      (sample_join_modal, sample_env True, sample_join_props))) = '' BAD123''
   \<and> onClose_calls (snd (snd (join_handleSubmit
      (Inl (sample_error 404 ''Not Found'' (Str ''Invalid invite code'')))
      (sample_join_modal, sample_env True, sample_join_props)))) = 0
   \<and> onClose_calls (snd (snd (join_handleSubmit (Inr \<lparr>w_id = ''w1'', w_title = ''Home''\<rparr>)
      (sample_join_modal, sample_env True, sample_join_props)))) = 1"
  using join_failure_keeps_modal_open
          [where m = sample_join_modal and e = "sample_env True" and props = sample_join_props
             and err = "sample_error 404 ''Not Found'' (Str ''Invalid invite code'')"
             and answer = "Inr \<lparr>w_id = ''w1'', w_title = ''Home''\<rparr>"]
        join_failure_keeps_modal_open
          [where m = sample_join_modal and e = "sample_env True" and props = sample_join_props
             and err = "sample_error 404 ''Not Found'' Undefined"
             and answer = "Inl (sample_error 404 ''Not Found'' (Str ''Invalid invite code''))"]
  by (simp add: sample_join_modal_def sample_join_props_def sample_error_def
        sample_response_def response_data_message_def js_trim_def is_js_space_def)

section \<open>Reactions on a product card\<close>




section \<open>The add-product form\<close>

text \<open>
  C6. The submit button of the add-product form is disabled exactly when a submission is in
  flight or the trimmed name is empty. Submitting while the trimmed name is empty changes
  nothing; in particular no request is sent while the button is disabled, nor when the
  form fails the browser's validation, whereas a submit with the button enabled and a form
  that passes validation sends one productsAPI.create request.
\<close>

theorem empty_name_sends_no_request:
  "submit_disabled m = (add_isLoading m \<or> js_trim (name (formData m)) = [])
   \<and> (js_trim (name (formData m)) = [] \<longrightarrow>
        submit wid (handleAddProduct wid answer) v (m, w) = (m, w))
   \<and> (submit_disabled m \<longrightarrow>
        api_calls (fst (snd (submit wid (handleAddProduct wid answer) v (m, w)))) =
          api_calls (fst w))
   \<and> (\<not> passes_validation v (formData m) \<longrightarrow>
        submit wid (handleAddProduct wid answer) v (m, w) = (m, w))
   \<and> (\<not> submit_disabled m \<and> passes_validation v (formData m) \<longrightarrow>
        api_calls (fst (snd (submit wid (handleAddProduct wid answer) v (m, w)))) =
          api_calls (fst w) @ [Products_create (make_productData wid (formData m))])"
  by (cases answer)
     (simp_all add: submit_def submit_disabled_def handleAddProduct_def call_api_def Let_def)

theorem empty_name_sends_no_request_witness:
  "submit_disabled (sample_add_modal ''   '')
   \<and> api_calls (fst (snd (submit ''w1'' (handleAddProduct ''w1'' (Inr sample_product)) True
        (sample_add_modal ''   '', (sample_env True, sample_page))))) = []
   \<and> \<not> submit_disabled (sample_add_modal ''Lamp'')
   \<and> passes_validation True (formData (sample_add_modal ''Lamp''))
   \<and> api_calls (fst (snd (submit ''w1'' (handleAddProduct ''w1'' (Inr sample_product)) True
        (sample_add_modal ''Lamp'', (sample_env True, sample_page))))) =
       [Products_create (make_productData ''w1'' (initial_formData\<lparr>name := ''Lamp''\<rparr>))]
   \<and> api_calls (fst (snd (submit ''w1'' (handleAddProduct ''w1'' (Inr sample_product)) False
        (sample_add_modal ''Lamp'', (sample_env True, sample_page))))) = []"
  using empty_name_sends_no_request
          [where m = "sample_add_modal ''   ''" and wid = "''w1''" and v = True
             and answer = "Inr sample_product" and w = "(sample_env True, sample_page)"]
        empty_name_sends_no_request
          [where m = "sample_add_modal ''Lamp''" and wid = "''w1''" and v = True
             and answer = "Inr sample_product" and w = "(sample_env True, sample_page)"]
        empty_name_sends_no_request
          [where m = "sample_add_modal ''Lamp''" and wid = "''w1''" and v = False
             and answer = "Inr sample_product" and w = "(sample_env True, sample_page)"]
  by (simp add: sample_add_modal_def sample_env_def js_trim_def is_js_space_def
        passes_validation_def initial_formData_def)

section \<open>Error messages of the image upload\<close>

text \<open>
  C7, as stated, fails. A response with status 500 that carries neither a message nor a
  status text is shown as \<open>Upload failed\<close>, which is neither of the two; and an error with
  neither a response nor a request is shown with its own message, not with the
  connectivity message.
\<close>

theorem upload_error_message_counterexample:
  "upload_error (onDrop (Inl (sample_error 500 [] Undefined)) sample_upload_state)
     = Str ''Upload failed''
   \<and> upload_error
        (onDrop (Inl \<lparr>response = None, request = False, message = ''canceled''\<rparr>)
           sample_upload_state)
     = Str ''canceled''"
  by (simp add: onDrop_def upload_error_message_def js_or_def sample_error_def
        sample_response_def)

text \<open>
  C7, amended. For every failed upload request: a response with status 503 is shown as the
  "service not configured" message; any other response is shown as its message when that
  is truthy, else as its status text when that is not empty, else as \<open>Upload failed\<close>; with
  no response but a request, the connectivity message is shown; with neither, the error's
  own message, or \<open>Upload failed\<close> when that is empty.
\<close>

theorem upload_error_message_cases:
  "(response err = Some r \<and> status r = 503 \<longrightarrow>
      upload_error (onDrop (Inl err) st) = Str not_configured_message)
   \<and> (response err = Some r \<and> status r \<noteq> 503 \<longrightarrow>
        upload_error (onDrop (Inl err) st) =
          (if truthy (data_message r) then data_message r
           else if statusText r \<noteq> [] then Str (statusText r)
           else Str ''Upload failed''))
   \<and> (response err = None \<and> request err \<longrightarrow>
        upload_error (onDrop (Inl err) st) = Str unable_to_connect_message)
   \<and> (response err = None \<and> \<not> request err \<longrightarrow>
        upload_error (onDrop (Inl err) st) =
          (if message err \<noteq> [] then Str (message err) else Str ''Upload failed''))"
  by (simp add: onDrop_def upload_error_message_def js_or_def)

theorem upload_error_message_cases_witness:
  "upload_error (onDrop (Inl (sample_error 503 ''Service Unavailable'' (Str ''down'')))
      sample_upload_state) = Str not_configured_message
   \<and> upload_error (onDrop (Inl (sample_error 413 ''Payload Too Large'' (Str ''File too big'')))
      sample_upload_state) = Str ''File too big''
   \<and> upload_error (onDrop (Inl (sample_error 413 ''Payload Too Large'' Undefined))
      sample_upload_state) = Str ''Payload Too Large''
   \<and> upload_error
        (onDrop (Inl \<lparr>response = None, request = True, message = ''Network Error''\<rparr>)
           sample_upload_state) = Str unable_to_connect_message"
  using upload_error_message_cases
          [where err = "sample_error 503 ''Service Unavailable'' (Str ''down'')"
             and r = "sample_response 503 ''Service Unavailable'' (Str ''down'')"
             and st = sample_upload_state]
        upload_error_message_cases
          [where err = "sample_error 413 ''Payload Too Large'' (Str ''File too big'')"
             and r = "sample_response 413 ''Payload Too Large'' (Str ''File too big'')"
             and st = sample_upload_state]
        upload_error_message_cases
          [where err = "sample_error 413 ''Payload Too Large'' Undefined"
             and r = "sample_response 413 ''Payload Too Large'' Undefined"
             and st = sample_upload_state]
        upload_error_message_cases
          [where err = "\<lparr>response = None, request = True, message = ''Network Error''\<rparr>"
             and r = "sample_response 413 ''Payload Too Large'' Undefined"
             and st = sample_upload_state]
  by (simp add: sample_error_def sample_response_def)

end
